theory Spec2Isabelle
  imports Complex_Main
begin

section \<open>The screencast panel controller (src/screencastPanel.ts)\<close>

text \<open>
  The file defines one class, \<open>ScreencastPanel\<close>, with a static slot
  \<open>ScreencastPanel.instance\<close>. Everything else it touches is a collaborator: the editor
  host (\<open>vscode\<close>), the socket bridge, the telemetry and error reporters, the view
  renderer, \<open>JSON.parse\<close> and \<open>path.join\<close>. The embedding keeps the class's own state
  explicit, records every call made on a collaborator, in order, in a call log, and takes
  what the collaborators return as parameters (the record \<open>host\<close>).
\<close>

subsection \<open>JavaScript values, as far as \<open>reportError\<close> inspects them\<close>

text \<open>
  A number is the value of an IEEE double: a finite double is the rational it denotes
  (the sign of zero is not kept), and the three non-finite values are constructors.
\<close>

datatype jsnumber = Finite rat | PosInfinity | NegInfinity | NaN

datatype jsvalue =
    JUndefined
  | JNull
  | JBoolean bool
  | JNumber jsnumber
  | JString string
  | JArray "jsvalue list"
  | JObject "(string \<times> jsvalue) list"

text \<open>The exceptions the file can raise: both come from \<open>reportError\<close>.\<close>

datatype exn = SyntaxError | TypeError

text \<open>Truthiness, as \<open>&&\<close> tests it.\<close>

fun ToBoolean :: "jsvalue \<Rightarrow> bool" where
  "ToBoolean JUndefined = False"
| "ToBoolean JNull = False"
| "ToBoolean (JBoolean b) = b"
| "ToBoolean (JNumber (Finite q)) = (q \<noteq> 0)"
| "ToBoolean (JNumber NaN) = False"
| "ToBoolean (JNumber PosInfinity) = True"
| "ToBoolean (JNumber NegInfinity) = True"
| "ToBoolean (JString s) = (s \<noteq> [])"
| "ToBoolean (JArray xs) = True"
| "ToBoolean (JObject ps) = True"

text \<open>
  Reading \<open>v.k\<close> for a value \<open>v\<close> that is neither \<open>null\<close> nor \<open>undefined\<close>, and a name
  \<open>k\<close> that no built-in prototype defines (\<open>errorCode\<close>, \<open>title\<close> and \<open>message\<close> are
  such names): an object yields its own property or \<open>undefined\<close>, every other value
  yields \<open>undefined\<close>. An object is the list of its own properties, each name once.
\<close>

fun Get :: "jsvalue \<Rightarrow> string \<Rightarrow> jsvalue" where
  "Get (JObject ps) k = (case map_of ps k of None \<Rightarrow> JUndefined | Some v \<Rightarrow> v)"
| "Get v k = JUndefined"

text \<open>Reading any property of \<open>null\<close> or \<open>undefined\<close> raises a \<open>TypeError\<close>.\<close>

fun nullish :: "jsvalue \<Rightarrow> bool" where
  "nullish JUndefined = True"
| "nullish JNull = True"
| "nullish v = False"

subsection \<open>Collaborators\<close>

text \<open>Host objects are known by their identity, a number handed out at allocation.\<close>

type_synonym WebviewPanel = nat
type_synonym PanelSocket = nat
type_synonym TelemetryReporter = nat

record 'uri ExtensionContext =
  context_extensionPath :: string
  context_extensionUri :: 'uri

datatype ViewColumn = Active | Beside | Column nat

record WebviewOptions =
  enableCommandUris :: bool
  enableScripts :: bool
  retainContextWhenHidden :: bool

text \<open>
  The object literal \<open>{ event: e, message }\<close> that \<open>postToWebview\<close> builds, and the wire
  envelope posted into the webview. An absent (\<open>undefined\<close>) message is \<open>None\<close>.
\<close>

record 'e SocketArgs =
  event :: 'e
  message :: "string option"

record 'e WireEnvelope = "'e SocketArgs" +
  channel :: string

text \<open>Every call the file makes on a collaborator object.\<close>

datatype ('uri, 'e) call =
    CreateWebviewPanel WebviewPanel string string ViewColumn WebviewOptions
  | CreateTelemetryReporter "'uri ExtensionContext"
  | NewPanelSocket PanelSocket string
  | SocketOn PanelSocket string
  | PanelOnDidDispose WebviewPanel
  | PanelOnDidChangeViewState WebviewPanel
  | WebviewOnDidReceiveMessage WebviewPanel
  | PanelDispose WebviewPanel
  | SocketDispose PanelSocket
  | SocketOnMessageFromWebview PanelSocket string
  | SetHtml WebviewPanel string
  | PostMessage WebviewPanel "'e WireEnvelope"
  | AsWebviewUri WebviewPanel 'uri
  | RenderScreencastView string 'uri 'uri 'uri
  | ShowErrorDialog jsvalue
  | SendTelemetryErrorEvent TelemetryReporter string "(string \<times> string) list"

text \<open>
  What the collaborators return. \<open>JSON_parse\<close> is \<open>None\<close> where \<open>JSON.parse\<close> raises its
  \<open>SyntaxError\<close>; \<open>render\<close> is \<open>new ScreencastView(...).render()\<close>; the two names are
  constants of \<open>./utils\<close>.
\<close>

record 'uri host =
  path_join :: "string list \<Rightarrow> string"
  Uri_file :: "string \<Rightarrow> 'uri"
  Uri_joinPath :: "'uri \<Rightarrow> string list \<Rightarrow> 'uri"
  asWebviewUri :: "WebviewPanel \<Rightarrow> 'uri \<Rightarrow> 'uri"
  cspSource :: "WebviewPanel \<Rightarrow> string"
  render :: "string \<Rightarrow> 'uri \<Rightarrow> 'uri \<Rightarrow> 'uri \<Rightarrow> string"
  JSON_parse :: "string \<Rightarrow> jsvalue option"
  createTelemetryReporter :: "'uri ExtensionContext \<Rightarrow> TelemetryReporter"
  SETTINGS_STORE_NAME :: string
  SETTINGS_SCREENCAST_WEBVIEW_NAME :: string

subsection \<open>The class and the program state\<close>

record 'uri ScreencastPanel =
  context' :: "'uri ExtensionContext"
  extensionPath :: string
  panel :: WebviewPanel
  targetUrl :: string
  panelSocket :: PanelSocket
  telemetryReporter :: TelemetryReporter

text \<open>
  \<open>ScreencastPanel_instance\<close> is the static field. \<open>constructed\<close> lists the controllers
  whose callbacks the host objects hold: the constructor registers them and nothing in
  the file removes them. \<open>allocated\<close> counts the host objects created so far, \<open>visible\<close>
  is the host's \<open>panel.visible\<close>, and \<open>calls\<close> is the call log, oldest call first.
\<close>

record ('uri, 'e) world =
  ScreencastPanel_instance :: "'uri ScreencastPanel option"
  constructed :: "'uri ScreencastPanel list"
  allocated :: nat
  visible :: "WebviewPanel \<Rightarrow> bool"
  calls :: "('uri, 'e) call list"

definition invoke :: "('uri, 'e) call \<Rightarrow> ('uri, 'e) world \<Rightarrow> ('uri, 'e) world" where
  "invoke c w = w\<lparr>calls := calls w @ [c]\<rparr>"

definition initial :: "(WebviewPanel \<Rightarrow> bool) \<Rightarrow> ('uri, 'e) world" where
  "initial vis =
     \<lparr>ScreencastPanel_instance = None, constructed = [], allocated = 0,
      visible = vis, calls = []\<rparr>"

subsection \<open>Methods\<close>

definition dispose :: "'uri ScreencastPanel \<Rightarrow> ('uri, 'e) world \<Rightarrow> ('uri, 'e) world" where
  "dispose this w =
     (let w1 = w\<lparr>ScreencastPanel_instance := None\<rparr>;
          w2 = invoke (PanelDispose (panel this)) w1
      in invoke (SocketDispose (panelSocket this)) w2)"

definition onSocketClose :: "'uri ScreencastPanel \<Rightarrow> ('uri, 'e) world \<Rightarrow> ('uri, 'e) world" where
  "onSocketClose this w = dispose this w"

definition getHtmlForWebview ::
  "'uri host \<Rightarrow> 'uri ScreencastPanel \<Rightarrow> ('uri, 'e) world \<Rightarrow> string \<times> ('uri, 'e) world" where
  "getHtmlForWebview h this w =
     (let inspectorPath =
            Uri_file h (path_join h [extensionPath this, ''out/screencast'', ''screencast.bundle.js'']);
          inspectorUri = asWebviewUri h (panel this) inspectorPath;
          w1 = invoke (AsWebviewUri (panel this) inspectorPath) w;
          codiconsPath =
            Uri_joinPath h (context_extensionUri (context' this))
              [''node_modules'', ''@vscode/codicons'', ''dist'', ''codicon.css''];
          codiconsUri = asWebviewUri h (panel this) codiconsPath;
          w2 = invoke (AsWebviewUri (panel this) codiconsPath) w1;
          viewCss =
            Uri_joinPath h (context_extensionUri (context' this)) [''out/screencast'', ''view.css''];
          cssPath = asWebviewUri h (panel this) viewCss;
          w3 = invoke (AsWebviewUri (panel this) viewCss) w2;
          csp = cspSource h (panel this);
          w4 = invoke (RenderScreencastView csp cssPath codiconsUri inspectorUri) w3
      in (render h csp cssPath codiconsUri inspectorUri, w4))"

definition update :: "'uri host \<Rightarrow> 'uri ScreencastPanel \<Rightarrow> ('uri, 'e) world \<Rightarrow> ('uri, 'e) world" where
  "update h this w =
     (let (html, w1) = getHtmlForWebview h this w
      in invoke (SetHtml (panel this) html) w1)"

text \<open>
  Modelled from the spec: \<open>encodeMessageForChannel\<close> of \<open>./common/webviewEvents\<close>, which is
  not among the source files. The spec has \<open>postToWebview\<close> wrap the pair into the fixed
  wire envelope \<open>{channel, event, message?}\<close> and post it to the panel's content surface:
  the callback is called once, with the envelope made of the channel and the arguments.
\<close>

definition encodeMessageForChannel ::
  "('e WireEnvelope \<Rightarrow> ('uri, 'e) world \<Rightarrow> ('uri, 'e) world) \<Rightarrow> string \<Rightarrow> 'e SocketArgs
     \<Rightarrow> ('uri, 'e) world \<Rightarrow> ('uri, 'e) world" where
  "encodeMessageForChannel postMessageCallback chan args w =
     postMessageCallback \<lparr>event = event args, message = message args, channel = chan\<rparr> w"

definition postToWebview ::
  "'uri ScreencastPanel \<Rightarrow> 'e \<Rightarrow> string option \<Rightarrow> ('uri, 'e) world \<Rightarrow> ('uri, 'e) world" where
  "postToWebview this e msg w =
     encodeMessageForChannel (\<lambda>m. invoke (PostMessage (panel this) m)) ''websocket''
       \<lparr>event = e, message = msg\<rparr> w"

text \<open>
  \<open>reportError\<close> returns the exception it raised, if any, with the state at that point.
  \<open>errorObj.errorCode\<close> is read first and raises on \<open>null\<close>.
\<close>

definition reportError ::
  "'uri host \<Rightarrow> 'uri ScreencastPanel \<Rightarrow> string \<Rightarrow> ('uri, 'e) world
     \<Rightarrow> exn option \<times> ('uri, 'e) world" where
  "reportError h this msg w =
     (case JSON_parse h msg of
        None \<Rightarrow> (Some SyntaxError, w)
      | Some errorObj \<Rightarrow>
          if nullish errorObj then (Some TypeError, w)
          else if Get errorObj ''errorCode'' \<noteq> JUndefined
                  \<and> ToBoolean (Get errorObj ''title'')
                  \<and> ToBoolean (Get errorObj ''message'')
          then (None, invoke (ShowErrorDialog errorObj) w)
          else (None,
                invoke (SendTelemetryErrorEvent (telemetryReporter this)
                          ''view/screencast/error'' [(''message'', msg)]) w))"

text \<open>The three callbacks the constructor registers on the panel and its webview.\<close>

definition panel_onDidDispose ::
  "'uri ScreencastPanel \<Rightarrow> ('uri, 'e) world \<Rightarrow> ('uri, 'e) world" where
  "panel_onDidDispose this w = invoke (SocketDispose (panelSocket this)) (dispose this w)"

definition panel_onDidChangeViewState ::
  "'uri host \<Rightarrow> 'uri ScreencastPanel \<Rightarrow> ('uri, 'e) world \<Rightarrow> ('uri, 'e) world" where
  "panel_onDidChangeViewState h this w =
     (if visible w (panel this) then update h this w else w)"

definition webview_onDidReceiveMessage ::
  "'uri ScreencastPanel \<Rightarrow> string \<Rightarrow> ('uri, 'e) world \<Rightarrow> ('uri, 'e) world" where
  "webview_onDidReceiveMessage this m w =
     invoke (SocketOnMessageFromWebview (panelSocket this) m) w"

text \<open>The constructor: the socket bridge is a new host object.\<close>

definition new_ScreencastPanel ::
  "'uri host \<Rightarrow> WebviewPanel \<Rightarrow> 'uri ExtensionContext \<Rightarrow> string \<Rightarrow> ('uri, 'e) world
     \<Rightarrow> 'uri ScreencastPanel \<times> ('uri, 'e) world" where
  "new_ScreencastPanel h p context targetUrl' w =
     (let w1 = invoke (CreateTelemetryReporter context) w;
          socket = allocated w1;
          w2 = invoke (NewPanelSocket socket targetUrl') (w1\<lparr>allocated := Suc (allocated w1)\<rparr>);
          this = \<lparr>context' = context, extensionPath = context_extensionPath context,
                  panel = p, targetUrl = targetUrl', panelSocket = socket,
                  telemetryReporter = createTelemetryReporter h context\<rparr>;
          w3 = invoke (SocketOn socket ''close'') w2;
          w4 = invoke (SocketOn socket ''reportError'') w3;
          w5 = invoke (PanelOnDidDispose p) w4;
          w6 = invoke (PanelOnDidChangeViewState p) w5;
          w7 = invoke (WebviewOnDidReceiveMessage p) w6
      in (this, w7\<lparr>constructed := constructed w7 @ [this]\<rparr>))"

definition createOrShow ::
  "'uri host \<Rightarrow> 'uri ExtensionContext \<Rightarrow> string \<Rightarrow> ('uri, 'e) world \<Rightarrow> ('uri, 'e) world" where
  "createOrShow h context targetUrl' w =
     (let column = Beside in
      case ScreencastPanel_instance w of
        Some inst \<Rightarrow> dispose inst w
      | None \<Rightarrow>
          (let p = allocated w;
               w1 = invoke (CreateWebviewPanel p (SETTINGS_STORE_NAME h)
                              (SETTINGS_SCREENCAST_WEBVIEW_NAME h) column
                              \<lparr>enableCommandUris = True, enableScripts = True,
                               retainContextWhenHidden = True\<rparr>)
                      (w\<lparr>allocated := Suc (allocated w)\<rparr>);
               (this, w2) = new_ScreencastPanel h p context targetUrl' w1
           in w2\<lparr>ScreencastPanel_instance := Some this\<rparr>))"

subsection \<open>Events\<close>

text \<open>
  Everything runs as the reaction to one event, to completion: a \<open>createOrShow\<close> command,
  a direct \<open>dispose()\<close>, one of the five subscriptions of the constructor firing on the
  controller that registered it, or the socket bridge calling the callback it was
  constructed with. A visibility change sets the host's \<open>panel.visible\<close> before the
  handler runs. An exception raised by \<open>reportError\<close> goes back to the emitter; the state
  stays as the handler left it.
\<close>

datatype ('uri, 'e) event =
    Command_createOrShow "'uri ExtensionContext" string
  | Call_dispose "'uri ScreencastPanel"
  | PanelDisposed "'uri ScreencastPanel"
  | ViewStateChanged "'uri ScreencastPanel" bool
  | MessageFromWebview "'uri ScreencastPanel" string
  | SocketClosed "'uri ScreencastPanel"
  | SocketReportedError "'uri ScreencastPanel" string
  | SocketForwarded "'uri ScreencastPanel" 'e "string option"

fun step :: "'uri host \<Rightarrow> ('uri, 'e) event \<Rightarrow> ('uri, 'e) world \<Rightarrow> ('uri, 'e) world" where
  "step h (Command_createOrShow c u) w = createOrShow h c u w"
| "step h (Call_dispose this) w = dispose this w"
| "step h (PanelDisposed this) w = panel_onDidDispose this w"
| "step h (ViewStateChanged this v) w =
     panel_onDidChangeViewState h this (w\<lparr>visible := (visible w)(panel this := v)\<rparr>)"
| "step h (MessageFromWebview this m) w = webview_onDidReceiveMessage this m w"
| "step h (SocketClosed this) w = onSocketClose this w"
| "step h (SocketReportedError this msg) w = snd (reportError h this msg w)"
| "step h (SocketForwarded this e msg) w = postToWebview this e msg w"

fun run :: "'uri host \<Rightarrow> ('uri, 'e) event list \<Rightarrow> ('uri, 'e) world \<Rightarrow> ('uri, 'e) world" where
  "run h [] w = w"
| "run h (ev # evs) w = run h evs (step h ev w)"

text \<open>The controller an event runs on, and the events that end in \<open>dispose()\<close>.\<close>

fun target :: "('uri, 'e) event \<Rightarrow> 'uri ScreencastPanel option" where
  "target (Command_createOrShow c u) = None"
| "target (Call_dispose this) = Some this"
| "target (PanelDisposed this) = Some this"
| "target (ViewStateChanged this v) = Some this"
| "target (MessageFromWebview this m) = Some this"
| "target (SocketClosed this) = Some this"
| "target (SocketReportedError this msg) = Some this"
| "target (SocketForwarded this e msg) = Some this"

fun disposing :: "('uri, 'e) event \<Rightarrow> bool" where
  "disposing (Call_dispose this) = True"
| "disposing (PanelDisposed this) = True"
| "disposing (SocketClosed this) = True"
| "disposing ev = False"

subsection \<open>Notions the properties are stated with\<close>

text \<open>
  A controller is live when it has been constructed and \<open>dispose()\<close> has not run on it:
  \<open>dispose()\<close> is the only place that releases a panel.
\<close>

fun released_panels :: "('uri, 'e) call list \<Rightarrow> WebviewPanel list" where
  "released_panels [] = []"
| "released_panels (PanelDispose p # cs) = p # released_panels cs"
| "released_panels (c # cs) = released_panels cs"

definition live_instances :: "('uri, 'e) world \<Rightarrow> 'uri ScreencastPanel list" where
  "live_instances w =
     filter (\<lambda>t. panel t \<notin> set (released_panels (calls w))) (constructed w)"

definition slot :: "('uri, 'e) world \<Rightarrow> 'uri ScreencastPanel list" where
  "slot w = (case ScreencastPanel_instance w of None \<Rightarrow> [] | Some t \<Rightarrow> [t])"

text \<open>
  An event sequence is deliverable when every handler runs on a controller that was
  constructed before; it is timely when, moreover, no event that ends in \<open>dispose()\<close>
  runs on one controller while the slot holds another.
\<close>

fun deliverable :: "'uri host \<Rightarrow> ('uri, 'e) event list \<Rightarrow> ('uri, 'e) world \<Rightarrow> bool" where
  "deliverable h [] w = True"
| "deliverable h (ev # evs) w =
     ((case target ev of None \<Rightarrow> True | Some t \<Rightarrow> t \<in> set (constructed w))
      \<and> deliverable h evs (step h ev w))"

fun timely :: "'uri host \<Rightarrow> ('uri, 'e) event list \<Rightarrow> ('uri, 'e) world \<Rightarrow> bool" where
  "timely h [] w = True"
| "timely h (ev # evs) w =
     ((case target ev of
         None \<Rightarrow> True
       | Some t \<Rightarrow> t \<in> set (constructed w) \<and> (if disposing ev then set (slot w) \<subseteq> {t} else True))
      \<and> timely h evs (step h ev w))"

text \<open>
  The consistency of a state: the handles in use were allocated, and the live controllers
  are exactly the content of the static slot.
\<close>

definition consistent :: "('uri, 'e) world \<Rightarrow> bool" where
  "consistent w =
     (list_all (\<lambda>t. panel t < allocated w) (constructed w)
      \<and> list_all (\<lambda>p. p < allocated w) (released_panels (calls w))
      \<and> live_instances w = slot w)"

text \<open>
  The controller that \<open>createOrShow\<close> constructs in a state with an empty slot, and the
  calls it makes on the way, in order: the panel, then what the constructor does.
\<close>

definition fresh_controller ::
  "'uri host \<Rightarrow> 'uri ExtensionContext \<Rightarrow> string \<Rightarrow> ('uri, 'e) world \<Rightarrow> 'uri ScreencastPanel" where
  "fresh_controller h c u w =
     \<lparr>context' = c, extensionPath = context_extensionPath c, panel = allocated w,
      targetUrl = u, panelSocket = Suc (allocated w),
      telemetryReporter = createTelemetryReporter h c\<rparr>"

definition construction_calls ::
  "'uri host \<Rightarrow> 'uri ExtensionContext \<Rightarrow> string \<Rightarrow> ('uri, 'e) world \<Rightarrow> ('uri, 'e) call list" where
  "construction_calls h c u w =
     [CreateWebviewPanel (allocated w) (SETTINGS_STORE_NAME h)
        (SETTINGS_SCREENCAST_WEBVIEW_NAME h) Beside
        \<lparr>enableCommandUris = True, enableScripts = True, retainContextWhenHidden = True\<rparr>,
      CreateTelemetryReporter c,
      NewPanelSocket (Suc (allocated w)) u,
      SocketOn (Suc (allocated w)) ''close'',
      SocketOn (Suc (allocated w)) ''reportError'',
      PanelOnDidDispose (allocated w),
      PanelOnDidChangeViewState (allocated w),
      WebviewOnDidReceiveMessage (allocated w)]"

text \<open>The resource URIs requested from a webview, and the HTML assigned to panels.\<close>

fun uri_requests :: "('uri, 'e) call list \<Rightarrow> 'uri list" where
  "uri_requests [] = []"
| "uri_requests (AsWebviewUri p u # cs) = u # uri_requests cs"
| "uri_requests (c # cs) = uri_requests cs"

fun html_assignments :: "('uri, 'e) call list \<Rightarrow> (WebviewPanel \<times> string) list" where
  "html_assignments [] = []"
| "html_assignments (SetHtml p html # cs) = (p, html) # html_assignments cs"
| "html_assignments (c # cs) = html_assignments cs"

text \<open>
  The structured error shape as \<open>reportError\<close> tests it, said of the parsed object's
  own properties: an \<open>errorCode\<close> that is present, and a \<open>title\<close> and a \<open>message\<close> that
  are present and truthy.
\<close>

definition structured_error :: "jsvalue \<Rightarrow> bool" where
  "structured_error v =
     (case v of
        JObject ps \<Rightarrow>
          (case (map_of ps ''errorCode'', map_of ps ''title'', map_of ps ''message'') of
             (Some c, Some t, Some m) \<Rightarrow> c \<noteq> JUndefined \<and> ToBoolean t \<and> ToBoolean m
           | _ \<Rightarrow> False)
      | _ \<Rightarrow> False)"

subsection \<open>A concrete host, for evaluating the definitions\<close>

text \<open>
  \<open>sample_JSON_parse\<close> agrees with \<open>JSON.parse\<close> on the four JSON texts it lists and on
  \<open>not json\<close>, which is no JSON text; it is applied to no other string.
\<close>

definition sample_JSON_parse :: "string \<Rightarrow> jsvalue option" where
  \<open>sample_JSON_parse s =
     (if s = ''{"errorCode":1,"title":"Oops","message":"failed"}''
      then Some (JObject [(''errorCode'', JNumber (Finite 1)), (''title'', JString ''Oops''),
                          (''message'', JString ''failed'')])
      else if s = ''{"foo":"bar"}'' then Some (JObject [(''foo'', JString ''bar'')])
      else if s = ''{"title":"Oops","message":"failed"}''
      then Some (JObject [(''title'', JString ''Oops''), (''message'', JString ''failed'')])
      else if s = ''null'' then Some JNull
      else if s = ''not json'' then None
      else None)\<close>

definition sample_host :: "string host" where
  "sample_host =
     \<lparr>path_join =
        (\<lambda>segs. case segs of
                  [] \<Rightarrow> ''.''
                | seg # rest \<Rightarrow> foldl (\<lambda>a b. a @ ''/'' @ b) seg rest),
      Uri_file = (\<lambda>p. ''file://'' @ p),
      Uri_joinPath = (\<lambda>u segs. u @ concat (map (\<lambda>seg. ''/'' @ seg) segs)),
      asWebviewUri = (\<lambda>p u. ''webview:'' @ u),
      cspSource = (\<lambda>p. ''csp-source''),
      render = (\<lambda>csp css codicons inspector. csp @ '' '' @ css @ '' '' @ codicons @ '' '' @ inspector),
      JSON_parse = sample_JSON_parse,
      createTelemetryReporter = (\<lambda>c. 7),
      SETTINGS_STORE_NAME = ''vscode-edge-devtools'',
      SETTINGS_SCREENCAST_WEBVIEW_NAME = ''Browser preview''\<rparr>"

definition sample_context :: "string ExtensionContext" where
  "sample_context = \<lparr>context_extensionPath = ''/ext'', context_extensionUri = ''file:///ext''\<rparr>"

definition sample_url :: string where
  "sample_url = ''ws://localhost:9222/page/1''"

text \<open>The first three controllers that \<open>createOrShow\<close> constructs on the sample host.\<close>

definition controller :: "nat \<Rightarrow> string ScreencastPanel" where
  "controller n =
     \<lparr>context' = sample_context, extensionPath = ''/ext'', panel = 2 * n,
      targetUrl = sample_url, panelSocket = 2 * n + 1, telemetryReporter = 7\<rparr>"

definition hidden :: "(string, string) world" where
  "hidden = initial (\<lambda>p. False)"

definition shown :: "(string, string) world" where
  "shown = createOrShow sample_host sample_context sample_url hidden"

definition sample_html :: string where
  "sample_html =
     ''csp-source '' @ ''webview:file:///ext/out/screencast/view.css ''
       @ ''webview:file:///ext/node_modules/@vscode/codicons/dist/codicon.css ''
       @ ''webview:file:///ext/out/screencast/screencast.bundle.js''"

text \<open>
  Three event sequences on the sample host, from the state \<open>hidden\<close>. In the first the
  controller is shown and then disposed. In the second the socket bridge of the first
  controller reports its closure while that controller is in the slot, and the host
  reports the panel disposed while the slot is empty. In the third the socket bridge of
  the first controller reports its closure after that controller was disposed and
  another one was shown.
\<close>

definition shown_then_disposed :: "(string, string) event list" where
  "shown_then_disposed =
     [Command_createOrShow sample_context sample_url, Call_dispose (controller 0)]"

definition timely_events :: "(string, string) event list" where
  "timely_events =
     [Command_createOrShow sample_context sample_url,
      ViewStateChanged (controller 0) True,
      SocketClosed (controller 0),
      PanelDisposed (controller 0),
      MessageFromWebview (controller 0) ''ready'',
      Command_createOrShow sample_context sample_url]"

definition late_close_events :: "(string, string) event list" where
  "late_close_events =
     [Command_createOrShow sample_context sample_url,
      Command_createOrShow sample_context sample_url,
      Command_createOrShow sample_context sample_url,
      SocketClosed (controller 0),
      Command_createOrShow sample_context sample_url]"

section \<open>Properties\<close>

subsection \<open>What each method does to the state\<close>

lemma dispose_unfold:
  "dispose t w =
     w\<lparr>ScreencastPanel_instance := None,
       calls := calls w @ [PanelDispose (panel t), SocketDispose (panelSocket t)]\<rparr>"
  by (simp add: dispose_def invoke_def Let_def)

lemma createOrShow_occupied:
  "ScreencastPanel_instance w = Some t \<Longrightarrow> createOrShow h c u w = dispose t w"
  by (simp add: createOrShow_def)

lemma createOrShow_empty:
  "ScreencastPanel_instance w = None \<Longrightarrow>
   createOrShow h c u w =
     w\<lparr>ScreencastPanel_instance := Some (fresh_controller h c u w),
       constructed := constructed w @ [fresh_controller h c u w],
       allocated := Suc (Suc (allocated w)),
       calls := calls w @ construction_calls h c u w\<rparr>"
  by (simp add: createOrShow_def new_ScreencastPanel_def invoke_def Let_def
      fresh_controller_def construction_calls_def)

lemma dispose_fields:
  "ScreencastPanel_instance (dispose t w) = None"
  "constructed (dispose t w) = constructed w"
  "allocated (dispose t w) = allocated w"
  "visible (dispose t w) = visible w"
  by (simp_all add: dispose_unfold)

lemma createOrShow_fields:
  "ScreencastPanel_instance (createOrShow h c u w) =
     (case ScreencastPanel_instance w of
        Some t \<Rightarrow> None | None \<Rightarrow> Some (fresh_controller h c u w))"
  "constructed (createOrShow h c u w) =
     (case ScreencastPanel_instance w of
        Some t \<Rightarrow> constructed w | None \<Rightarrow> constructed w @ [fresh_controller h c u w])"
  "allocated (createOrShow h c u w) =
     (case ScreencastPanel_instance w of
        Some t \<Rightarrow> allocated w | None \<Rightarrow> Suc (Suc (allocated w)))"
  by (simp_all add: createOrShow_empty createOrShow_occupied dispose_unfold split: option.splits)

lemma getHtmlForWebview_unfold:
  "getHtmlForWebview h this w =
     (render h (cspSource h (panel this))
        (asWebviewUri h (panel this)
          (Uri_joinPath h (context_extensionUri (context' this)) [''out/screencast'', ''view.css'']))
        (asWebviewUri h (panel this)
          (Uri_joinPath h (context_extensionUri (context' this))
            [''node_modules'', ''@vscode/codicons'', ''dist'', ''codicon.css'']))
        (asWebviewUri h (panel this)
          (Uri_file h (path_join h [extensionPath this, ''out/screencast'', ''screencast.bundle.js'']))),
      w\<lparr>calls := calls w @
        [AsWebviewUri (panel this)
           (Uri_file h (path_join h [extensionPath this, ''out/screencast'', ''screencast.bundle.js''])),
         AsWebviewUri (panel this)
           (Uri_joinPath h (context_extensionUri (context' this))
             [''node_modules'', ''@vscode/codicons'', ''dist'', ''codicon.css'']),
         AsWebviewUri (panel this)
           (Uri_joinPath h (context_extensionUri (context' this)) [''out/screencast'', ''view.css'']),
         RenderScreencastView (cspSource h (panel this))
           (asWebviewUri h (panel this)
             (Uri_joinPath h (context_extensionUri (context' this)) [''out/screencast'', ''view.css'']))
           (asWebviewUri h (panel this)
             (Uri_joinPath h (context_extensionUri (context' this))
               [''node_modules'', ''@vscode/codicons'', ''dist'', ''codicon.css'']))
           (asWebviewUri h (panel this)
             (Uri_file h (path_join h [extensionPath this, ''out/screencast'', ''screencast.bundle.js''])))]\<rparr>)"
  by (simp add: getHtmlForWebview_def Let_def invoke_def)

lemma uri_requests_append: "uri_requests (xs @ ys) = uri_requests xs @ uri_requests ys"
  by (induction xs rule: uri_requests.induct) simp_all

lemma html_assignments_append:
  "html_assignments (xs @ ys) = html_assignments xs @ html_assignments ys"
  by (induction xs rule: html_assignments.induct) simp_all

lemma released_panels_append:
  "released_panels (xs @ ys) = released_panels xs @ released_panels ys"
  by (induction xs rule: released_panels.induct) simp_all

lemma dispose_released:
  "released_panels (calls (dispose t w)) = released_panels (calls w) @ [panel t]"
  by (simp add: dispose_unfold released_panels_append)

lemma createOrShow_released:
  "released_panels (calls (createOrShow h c u w)) =
     (case ScreencastPanel_instance w of
        Some t \<Rightarrow> released_panels (calls w) @ [panel t] | None \<Rightarrow> released_panels (calls w))"
  by (simp add: createOrShow_empty createOrShow_occupied dispose_released released_panels_append
      construction_calls_def split: option.splits)

lemma update_fields:
  "ScreencastPanel_instance (update h this w) = ScreencastPanel_instance w"
  "constructed (update h this w) = constructed w"
  "allocated (update h this w) = allocated w"
  "visible (update h this w) = visible w"
  "released_panels (calls (update h this w)) = released_panels (calls w)"
  "html_assignments (calls (update h this w)) =
     html_assignments (calls w) @ [(panel this, fst (getHtmlForWebview h this w))]"
  by (simp_all add: update_def getHtmlForWebview_unfold invoke_def
      released_panels_append html_assignments_append)

lemma panel_onDidChangeViewState_fields:
  "ScreencastPanel_instance (panel_onDidChangeViewState h this w) = ScreencastPanel_instance w"
  "constructed (panel_onDidChangeViewState h this w) = constructed w"
  "allocated (panel_onDidChangeViewState h this w) = allocated w"
  "visible (panel_onDidChangeViewState h this w) = visible w"
  "released_panels (calls (panel_onDidChangeViewState h this w)) = released_panels (calls w)"
  by (simp_all add: panel_onDidChangeViewState_def update_fields)

lemma webview_onDidReceiveMessage_fields:
  "ScreencastPanel_instance (webview_onDidReceiveMessage this m w) = ScreencastPanel_instance w"
  "constructed (webview_onDidReceiveMessage this m w) = constructed w"
  "allocated (webview_onDidReceiveMessage this m w) = allocated w"
  "visible (webview_onDidReceiveMessage this m w) = visible w"
  "released_panels (calls (webview_onDidReceiveMessage this m w)) = released_panels (calls w)"
  by (simp_all add: webview_onDidReceiveMessage_def invoke_def released_panels_append)

lemma reportError_fields:
  "ScreencastPanel_instance (snd (reportError h this msg w)) = ScreencastPanel_instance w"
  "constructed (snd (reportError h this msg w)) = constructed w"
  "allocated (snd (reportError h this msg w)) = allocated w"
  "released_panels (calls (snd (reportError h this msg w))) = released_panels (calls w)"
  by (simp_all add: reportError_def invoke_def released_panels_append split: option.splits)

lemma postToWebview_unfold:
  "postToWebview this e msg w =
     invoke (PostMessage (panel this) \<lparr>event = e, message = msg, channel = ''websocket''\<rparr>) w"
  by (simp add: postToWebview_def encodeMessageForChannel_def)

subsection \<open>Consistency is kept by every timely event\<close>

lemma step_quiet:
  assumes "\<not> disposing ev" and "target ev \<noteq> None"
  shows "ScreencastPanel_instance (step h ev w) = ScreencastPanel_instance w"
    and "constructed (step h ev w) = constructed w"
    and "allocated (step h ev w) = allocated w"
    and "released_panels (calls (step h ev w)) = released_panels (calls w)"
  using assms
  by (cases ev; simp add: panel_onDidChangeViewState_fields webview_onDidReceiveMessage_fields
      reportError_fields postToWebview_unfold invoke_def released_panels_append)+

lemma consistent_quiet:
  assumes "consistent w"
    and "ScreencastPanel_instance w' = ScreencastPanel_instance w"
    and "constructed w' = constructed w"
    and "allocated w' = allocated w"
    and "released_panels (calls w') = released_panels (calls w)"
  shows "consistent w'"
  using assms by (simp add: consistent_def live_instances_def slot_def)

lemma consistent_dispose:
  assumes "consistent w" and "t \<in> set (constructed w)" and "set (slot w) \<subseteq> {t}"
  shows "consistent (dispose t w)"
proof -
  from assms(1, 3) have "set (live_instances w) \<subseteq> {t}" by (simp add: consistent_def)
  then have "filter (\<lambda>x. panel x \<noteq> panel t) (live_instances w) = []"
    by (auto simp add: filter_empty_conv)
  moreover
  have "live_instances (dispose t w) = filter (\<lambda>x. panel x \<noteq> panel t) (live_instances w)"
    by (auto simp add: live_instances_def dispose_released dispose_fields intro: filter_cong)
  ultimately have "live_instances (dispose t w) = []" by simp
  moreover have "slot (dispose t w) = []" by (simp add: slot_def dispose_fields)
  moreover from assms(1, 2) have "panel t < allocated w"
    by (simp add: consistent_def list_all_iff)
  ultimately show ?thesis
    using assms(1) by (simp add: consistent_def dispose_fields dispose_released)
qed

lemma consistent_createOrShow:
  assumes "consistent w"
  shows "consistent (createOrShow h c u w)"
proof (cases "ScreencastPanel_instance w")
  case (Some t)
  then have "slot w = [t]" by (simp add: slot_def)
  with assms have "set (live_instances w) = {t}" by (simp add: consistent_def)
  then have "t \<in> set (constructed w)" by (auto simp add: live_instances_def)
  with assms Some show ?thesis
    by (simp add: createOrShow_occupied consistent_dispose slot_def)
next
  case None
  have quiet: "released_panels (construction_calls h c u w) = []"
    by (simp add: construction_calls_def)
  from assms have fresh: "allocated w \<notin> set (released_panels (calls w))"
    by (auto simp add: consistent_def list_all_iff)
  from assms None have "live_instances w = []" by (simp add: consistent_def slot_def)
  with fresh have "live_instances (createOrShow h c u w) = [fresh_controller h c u w]"
    by (simp add: createOrShow_empty [OF None] live_instances_def released_panels_append quiet
        fresh_controller_def)
  moreover have "slot (createOrShow h c u w) = [fresh_controller h c u w]"
    by (simp add: createOrShow_empty [OF None] slot_def)
  moreover from assms have "list_all (\<lambda>t. panel t < Suc (Suc (allocated w))) (constructed w)"
    and "list_all (\<lambda>p. p < Suc (Suc (allocated w))) (released_panels (calls w))"
    by (auto simp add: consistent_def list_all_iff less_SucI)
  ultimately show ?thesis
    by (simp add: consistent_def createOrShow_empty [OF None] released_panels_append quiet
        fresh_controller_def)
qed

lemma consistent_step:
  assumes "consistent w"
    and "case target ev of
           None \<Rightarrow> True
         | Some t \<Rightarrow> t \<in> set (constructed w) \<and> (if disposing ev then set (slot w) \<subseteq> {t} else True)"
  shows "consistent (step h ev w)"
proof (cases "target ev")
  case None
  then obtain c u where "ev = Command_createOrShow c u" by (cases ev) simp_all
  with assms(1) show ?thesis by (simp add: consistent_createOrShow)
next
  case (Some t)
  show ?thesis
  proof (cases "disposing ev")
    case False
    from Some have "target ev \<noteq> None" by simp
    from assms(1) step_quiet [OF False this] show ?thesis by (rule consistent_quiet)
  next
    case True
    with assms(2) Some have "t \<in> set (constructed w)" and "set (slot w) \<subseteq> {t}" by simp_all
    with assms(1) have d: "consistent (dispose t w)" by (rule consistent_dispose)
    have "consistent (invoke (SocketDispose (panelSocket t)) (dispose t w))"
      by (rule consistent_quiet [OF d]) (simp_all add: invoke_def released_panels_append)
    with d True Some show ?thesis
      by (cases ev) (simp_all add: onSocketClose_def panel_onDidDispose_def)
  qed
qed

lemma consistent_run:
  "consistent w \<Longrightarrow> timely h evs w \<Longrightarrow> consistent (run h evs w)"
  by (induction evs arbitrary: w) (simp_all add: consistent_step)

lemma consistent_initial: "consistent (initial vis)"
  by (simp add: consistent_def initial_def live_instances_def slot_def)

subsection \<open>The sample states\<close>

lemma hidden_fields:
  "ScreencastPanel_instance hidden = None"
  "constructed hidden = []"
  "allocated hidden = 0"
  "calls hidden = []"
  by (simp_all add: hidden_def initial_def)

lemma controller_fields:
  "panel (controller n) = 2 * n"
  "panelSocket (controller n) = 2 * n + 1"
  "telemetryReporter (controller n) = 7"
  by (simp_all add: controller_def)

lemma sample_fresh_controller:
  "allocated w = 2 * n \<Longrightarrow>
     fresh_controller sample_host sample_context sample_url w = controller n"
  by (simp add: fresh_controller_def controller_def sample_host_def sample_context_def)

lemma sample_fresh_controller_record:
  "fresh_controller sample_host sample_context sample_url w =
     \<lparr>context' = sample_context, extensionPath = ''/ext'', panel = allocated w,
      targetUrl = sample_url, panelSocket = Suc (allocated w), telemetryReporter = 7\<rparr>"
  by (simp add: fresh_controller_def sample_host_def sample_context_def)

lemma sample_render: "fst (getHtmlForWebview sample_host (controller n) w) = sample_html"
  by (simp add: getHtmlForWebview_unfold controller_def sample_host_def sample_context_def
      sample_html_def)

lemma shown_fields:
  "ScreencastPanel_instance shown = Some (controller 0)"
  "constructed shown = [controller 0]"
  "allocated shown = 2"
  "visible shown = (\<lambda>p. False)"
  "released_panels (calls shown) = []"
  "html_assignments (calls shown) = []"
  by (simp_all add: shown_def createOrShow_empty hidden_fields sample_fresh_controller)
    (simp_all add: hidden_def initial_def construction_calls_def)

lemma hidden_consistent: "consistent hidden"
  by (simp add: hidden_def consistent_initial)

lemma shown_consistent: "consistent shown"
  by (simp add: shown_def hidden_consistent consistent_createOrShow)

subsection \<open>Calling \<open>createOrShow\<close> twice\<close>

lemma createOrShow_twice_slot:
  "(ScreencastPanel_instance w = None \<longrightarrow>
      ScreencastPanel_instance (createOrShow h c1 u1 w) = Some (fresh_controller h c1 u1 w)
      \<and> ScreencastPanel_instance (createOrShow h c2 u2 (createOrShow h c1 u1 w)) = None
      \<and> calls (createOrShow h c2 u2 (createOrShow h c1 u1 w)) =
          calls w @ construction_calls h c1 u1 w
            @ [PanelDispose (panel (fresh_controller h c1 u1 w)),
               SocketDispose (panelSocket (fresh_controller h c1 u1 w))])
   \<and> (ScreencastPanel_instance w = Some t \<longrightarrow>
      ScreencastPanel_instance (createOrShow h c1 u1 w) = None
      \<and> ScreencastPanel_instance (createOrShow h c2 u2 (createOrShow h c1 u1 w)) =
          Some (fresh_controller h c2 u2 w)
      \<and> calls (createOrShow h c2 u2 (createOrShow h c1 u1 w)) =
          calls w @ [PanelDispose (panel t), SocketDispose (panelSocket t)]
            @ construction_calls h c2 u2 w)"
proof (intro conjI impI)
  assume empty: "ScreencastPanel_instance w = None"
  let ?w1 = "createOrShow h c1 u1 w"
  show first: "ScreencastPanel_instance ?w1 = Some (fresh_controller h c1 u1 w)"
    by (simp add: createOrShow_empty [OF empty])
  show "ScreencastPanel_instance (createOrShow h c2 u2 ?w1) = None"
    by (simp add: createOrShow_occupied [OF first] dispose_unfold)
  show "calls (createOrShow h c2 u2 ?w1) =
          calls w @ construction_calls h c1 u1 w
            @ [PanelDispose (panel (fresh_controller h c1 u1 w)),
               SocketDispose (panelSocket (fresh_controller h c1 u1 w))]"
    unfolding createOrShow_occupied [OF first]
    by (simp add: dispose_unfold createOrShow_empty [OF empty])
next
  assume full: "ScreencastPanel_instance w = Some t"
  let ?w1 = "createOrShow h c1 u1 w"
  show first: "ScreencastPanel_instance ?w1 = None"
    by (simp add: createOrShow_occupied [OF full] dispose_unfold)
  have same: "fresh_controller h c2 u2 ?w1 = fresh_controller h c2 u2 w"
    "construction_calls h c2 u2 ?w1 = construction_calls h c2 u2 w"
    by (simp_all add: createOrShow_occupied [OF full] dispose_unfold fresh_controller_def
        construction_calls_def)
  show "ScreencastPanel_instance (createOrShow h c2 u2 ?w1) = Some (fresh_controller h c2 u2 w)"
    by (simp add: createOrShow_empty [OF first] same)
  show "calls (createOrShow h c2 u2 ?w1) =
          calls w @ [PanelDispose (panel t), SocketDispose (panelSocket t)]
            @ construction_calls h c2 u2 w"
    by (simp add: createOrShow_empty [OF first] same)
      (simp add: createOrShow_occupied [OF full] dispose_unfold)
qed

text \<open>
  C1. \<open>createOrShow\<close> is a toggle, so two calls in succession do not always leave one
  active instance. Take any consistent state, one in which the live controllers are
  exactly the content of the slot. From an empty slot the first call constructs a
  controller, the only live one, and the second disposes it, releasing its panel and its
  socket bridge, and constructs nothing: no controller is live and the slot is empty.
  From an occupied slot the first call disposes the controller in the slot, which leaves
  no live controller, and the second constructs a new one: exactly one controller is
  live, the one in the slot, and the releases of the first controller's panel and socket
  bridge come before every call of the construction.
\<close>

theorem createOrShow_twice:
  "consistent w \<Longrightarrow>
   (ScreencastPanel_instance w = None \<longrightarrow>
      ScreencastPanel_instance (createOrShow h c1 u1 w) = Some (fresh_controller h c1 u1 w)
      \<and> live_instances (createOrShow h c1 u1 w) = [fresh_controller h c1 u1 w]
      \<and> ScreencastPanel_instance (createOrShow h c2 u2 (createOrShow h c1 u1 w)) = None
      \<and> live_instances (createOrShow h c2 u2 (createOrShow h c1 u1 w)) = []
      \<and> calls (createOrShow h c2 u2 (createOrShow h c1 u1 w)) =
          calls w @ construction_calls h c1 u1 w
            @ [PanelDispose (panel (fresh_controller h c1 u1 w)),
               SocketDispose (panelSocket (fresh_controller h c1 u1 w))])
   \<and> (ScreencastPanel_instance w = Some t \<longrightarrow>
      ScreencastPanel_instance (createOrShow h c1 u1 w) = None
      \<and> live_instances (createOrShow h c1 u1 w) = []
      \<and> ScreencastPanel_instance (createOrShow h c2 u2 (createOrShow h c1 u1 w)) =
          Some (fresh_controller h c2 u2 w)
      \<and> live_instances (createOrShow h c2 u2 (createOrShow h c1 u1 w)) =
          [fresh_controller h c2 u2 w]
      \<and> calls (createOrShow h c2 u2 (createOrShow h c1 u1 w)) =
          calls w @ [PanelDispose (panel t), SocketDispose (panelSocket t)]
            @ construction_calls h c2 u2 w)"
proof -
  assume c: "consistent w"
  let ?w1 = "createOrShow h c1 u1 w"
  let ?w2 = "createOrShow h c2 u2 ?w1"
  from c have c1: "consistent ?w1" by (rule consistent_createOrShow)
  then have c2: "consistent ?w2" by (rule consistent_createOrShow)
  from c1 have l1: "live_instances ?w1 = slot ?w1" by (simp add: consistent_def)
  from c2 have l2: "live_instances ?w2 = slot ?w2" by (simp add: consistent_def)
  from createOrShow_twice_slot [of w h c1 u1 c2 u2 t] show ?thesis
    unfolding l1 l2 by (simp add: slot_def)
qed

text \<open>
  On the sample host: from the empty state \<open>hidden\<close> two calls leave no live controller;
  from the state \<open>shown\<close>, whose slot holds the first controller, two calls leave the
  second controller as the only live one, and the only panel released is the first
  controller's.
\<close>

theorem createOrShow_twice_witness:
  "consistent hidden
   \<and> ScreencastPanel_instance hidden = None
   \<and> live_instances
       (createOrShow sample_host sample_context sample_url
         (createOrShow sample_host sample_context sample_url hidden)) = []
   \<and> consistent shown
   \<and> ScreencastPanel_instance shown = Some (controller 0)
   \<and> ScreencastPanel_instance
       (createOrShow sample_host sample_context sample_url
         (createOrShow sample_host sample_context sample_url shown)) = Some (controller 1)
   \<and> live_instances
       (createOrShow sample_host sample_context sample_url
         (createOrShow sample_host sample_context sample_url shown)) = [controller 1]
   \<and> released_panels
       (calls (createOrShow sample_host sample_context sample_url
         (createOrShow sample_host sample_context sample_url shown))) = [0]"
proof -
  have e: "ScreencastPanel_instance hidden = None" by (simp add: hidden_fields)
  have f: "ScreencastPanel_instance shown = Some (controller 0)" by (simp add: shown_fields)
  have n: "fresh_controller sample_host sample_context sample_url shown = controller 1"
    by (rule sample_fresh_controller) (simp add: shown_fields)
  from e f hidden_consistent shown_consistent
    createOrShow_twice [OF hidden_consistent, of sample_host sample_context sample_url
      sample_context sample_url "controller 0"]
    createOrShow_twice [OF shown_consistent, of sample_host sample_context sample_url
      sample_context sample_url "controller 0"]
  show ?thesis
    by (simp add: n shown_fields controller_fields released_panels_append)
      (simp add: construction_calls_def)
qed

text \<open>
  The claim as stated fails from the empty slot: the state \<open>hidden\<close> is consistent, and
  after two calls the slot is empty and no controller is live.
\<close>

theorem createOrShow_twice_counterexample:
  "consistent hidden
   \<and> ScreencastPanel_instance hidden = None
   \<and> ScreencastPanel_instance
       (createOrShow sample_host sample_context sample_url
         (createOrShow sample_host sample_context sample_url hidden)) = None
   \<and> live_instances
       (createOrShow sample_host sample_context sample_url
         (createOrShow sample_host sample_context sample_url hidden)) = []"
  by (simp add: hidden_consistent hidden_fields shown_def [symmetric]
      createOrShow_occupied [OF shown_fields(1)] dispose_unfold live_instances_def shown_fields
      released_panels_append controller_fields)

subsection \<open>\<open>createOrShow\<close> on an occupied slot\<close>

text \<open>
  C2. When the slot holds a controller, \<open>createOrShow\<close> is that controller's
  \<open>dispose()\<close>: it empties the slot, releases the panel and the socket bridge, constructs
  nothing (no host object is allocated, no controller is added, no other call is made),
  and the resulting state is the same for every host, context and target URL.
\<close>

theorem createOrShow_disposes_existing:
  "ScreencastPanel_instance w = Some t \<Longrightarrow>
     createOrShow h c u w = dispose t w
     \<and> ScreencastPanel_instance (createOrShow h c u w) = None
     \<and> constructed (createOrShow h c u w) = constructed w
     \<and> allocated (createOrShow h c u w) = allocated w
     \<and> calls (createOrShow h c u w) =
         calls w @ [PanelDispose (panel t), SocketDispose (panelSocket t)]
     \<and> createOrShow h' c' u' w = createOrShow h c u w"
  by (simp add: createOrShow_occupied dispose_unfold)

theorem createOrShow_disposes_existing_witness:
  "ScreencastPanel_instance shown = Some (controller 0)
   \<and> ScreencastPanel_instance (createOrShow sample_host sample_context ''ws://other'' shown) = None
   \<and> constructed (createOrShow sample_host sample_context ''ws://other'' shown) = [controller 0]
   \<and> allocated (createOrShow sample_host sample_context ''ws://other'' shown) = 2
   \<and> createOrShow sample_host sample_context ''ws://other'' shown =
       createOrShow sample_host sample_context sample_url shown"
proof -
  have f: "ScreencastPanel_instance shown = Some (controller 0)" by (simp add: shown_fields)
  from f createOrShow_disposes_existing [OF f, of sample_host sample_context "''ws://other''"
      sample_host sample_context sample_url]
  show ?thesis by (simp add: dispose_unfold shown_fields)
qed

subsection \<open>Rendering and visibility\<close>

lemma createOrShow_html:
  "html_assignments (calls (createOrShow h c u w)) = html_assignments (calls w)"
  by (cases "ScreencastPanel_instance w")
    (simp_all add: createOrShow_empty createOrShow_occupied dispose_unfold
      html_assignments_append construction_calls_def)

lemma reportError_html:
  "html_assignments (calls (snd (reportError h this msg w))) = html_assignments (calls w)"
  by (simp add: reportError_def invoke_def html_assignments_append split: option.splits)

text \<open>
  C3. \<open>update()\<close> is private and its one call stands in the handler of the view-state
  event, behind the test of \<open>panel.visible\<close>. For every state in which the panel is not
  visible that handler leaves the state as it is: \<open>update()\<close> is not invoked and no HTML
  is assigned to the panel's webview. Over all events, a view-state event is \<open>update()\<close>
  in a state in which the panel is visible, or nothing but the host's change of
  \<open>panel.visible\<close>; and HTML is assigned to a webview by a view-state event that reports
  the panel visible, and by no other event.
\<close>

theorem update_only_when_visible:
  "(\<not> visible w (panel this) \<longrightarrow> panel_onDidChangeViewState h this w = w)
   \<and> step h (ViewStateChanged this v) w =
       (if v then update h this (w\<lparr>visible := (visible w)(panel this := True)\<rparr>)
        else w\<lparr>visible := (visible w)(panel this := False)\<rparr>)
   \<and> html_assignments (calls (step h ev w)) =
       html_assignments (calls w)
         @ (case ev of
              ViewStateChanged t vis \<Rightarrow>
                if vis then [(panel t, fst (getHtmlForWebview h t w))] else []
            | _ \<Rightarrow> [])"
proof (intro conjI)
  show "\<not> visible w (panel this) \<longrightarrow> panel_onDidChangeViewState h this w = w"
    by (simp add: panel_onDidChangeViewState_def)
  show "step h (ViewStateChanged this v) w =
       (if v then update h this (w\<lparr>visible := (visible w)(panel this := True)\<rparr>)
        else w\<lparr>visible := (visible w)(panel this := False)\<rparr>)"
    by (simp add: panel_onDidChangeViewState_def)
  show "html_assignments (calls (step h ev w)) =
       html_assignments (calls w)
         @ (case ev of
              ViewStateChanged t vis \<Rightarrow>
                if vis then [(panel t, fst (getHtmlForWebview h t w))] else []
            | _ \<Rightarrow> [])"
  proof (cases ev)
    case (ViewStateChanged t vis)
    then show ?thesis
      by (simp add: panel_onDidChangeViewState_def update_fields getHtmlForWebview_unfold)
  qed (simp_all add: createOrShow_html reportError_html dispose_unfold panel_onDidDispose_def
      onSocketClose_def webview_onDidReceiveMessage_def postToWebview_unfold invoke_def
      html_assignments_append)
qed

text \<open>
  On the sample host, in the state \<open>shown\<close>, where no panel is visible: the handler
  changes nothing, a view-state event that reports the panel hidden and a message from
  the webview assign no HTML, and a view-state event that reports the panel visible
  assigns the rendered HTML.
\<close>

theorem update_only_when_visible_witness:
  "\<not> visible shown (panel (controller 0))
   \<and> panel_onDidChangeViewState sample_host (controller 0) shown = shown
   \<and> html_assignments
       (calls (step sample_host (ViewStateChanged (controller 0) False) shown)) = []
   \<and> html_assignments
       (calls (step sample_host (MessageFromWebview (controller 0) ''ready'') shown)) = []
   \<and> html_assignments
       (calls (step sample_host (ViewStateChanged (controller 0) True) shown)) =
       [(0, sample_html)]"
  using
    update_only_when_visible [of shown "controller 0" sample_host False
      "ViewStateChanged (controller 0) False"]
    update_only_when_visible [of shown "controller 0" sample_host False
      "MessageFromWebview (controller 0) ''ready''"]
    update_only_when_visible [of shown "controller 0" sample_host True
      "ViewStateChanged (controller 0) True"]
  by (simp add: shown_fields controller_fields sample_render update_fields)

subsection \<open>Routing a reported error\<close>

lemma structured_error_test:
  "\<not> nullish v \<Longrightarrow>
     (Get v ''errorCode'' \<noteq> JUndefined \<and> ToBoolean (Get v ''title'')
        \<and> ToBoolean (Get v ''message'')) = structured_error v"
  by (cases v) (auto simp add: structured_error_def split: option.splits)

text \<open>
  C4. For every error string that parses to a value other than \<open>null\<close>: if the parsed
  object has an \<open>errorCode\<close> (it is required, not optional) and a truthy \<open>title\<close> and
  \<open>message\<close>, the error dialog receives that exact parsed object; otherwise the telemetry
  reporter receives the event \<open>view/screencast/error\<close> with the property bag that holds
  the raw string as \<open>message\<close>. Nothing is raised and no other call is made.
\<close>

theorem reportError_routing:
  assumes "JSON_parse h msg = Some errorObj" and "\<not> nullish errorObj"
  shows "reportError h this msg w =
           (None,
            invoke (if structured_error errorObj then ShowErrorDialog errorObj
                    else SendTelemetryErrorEvent (telemetryReporter this)
                           ''view/screencast/error'' [(''message'', msg)]) w)"
  using assms structured_error_test [OF assms(2)] by (simp add: reportError_def)

text \<open>The two strings of the claim: the first goes to the dialog, the second to telemetry.\<close>

theorem reportError_routing_witness:
  \<open>reportError sample_host (controller 0)
      ''{"errorCode":1,"title":"Oops","message":"failed"}'' shown =
     (None,
      invoke (ShowErrorDialog
                (JObject [(''errorCode'', JNumber (Finite 1)), (''title'', JString ''Oops''),
                          (''message'', JString ''failed'')])) shown)
   \<and> reportError sample_host (controller 0) ''{"foo":"bar"}'' shown =
     (None,
      invoke (SendTelemetryErrorEvent 7 ''view/screencast/error''
                [(''message'', ''{"foo":"bar"}'')]) shown)\<close>
proof -
  have p1: \<open>JSON_parse sample_host ''{"errorCode":1,"title":"Oops","message":"failed"}'' =
      Some (JObject [(''errorCode'', JNumber (Finite 1)), (''title'', JString ''Oops''),
                     (''message'', JString ''failed'')])\<close>
    by (simp add: sample_host_def sample_JSON_parse_def)
  have p2: \<open>JSON_parse sample_host ''{"foo":"bar"}'' = Some (JObject [(''foo'', JString ''bar'')])\<close>
    by (simp add: sample_host_def sample_JSON_parse_def)
  from reportError_routing [OF p1, of "controller 0" shown]
    reportError_routing [OF p2, of "controller 0" shown]
  show ?thesis by (simp add: structured_error_def controller_fields)
qed

text \<open>
  The claim as stated fails where the object has a \<open>title\<close> and a \<open>message\<close> and no
  \<open>errorCode\<close>: the string goes to telemetry, not to the dialog.
\<close>

theorem reportError_errorCode_required_counterexample:
  \<open>JSON_parse sample_host ''{"title":"Oops","message":"failed"}'' =
     Some (JObject [(''title'', JString ''Oops''), (''message'', JString ''failed'')])
   \<and> reportError sample_host (controller 0) ''{"title":"Oops","message":"failed"}'' shown =
     (None,
      invoke (SendTelemetryErrorEvent 7 ''view/screencast/error''
                [(''message'', ''{"title":"Oops","message":"failed"}'')]) shown)
   \<and> reportError sample_host (controller 0) ''{"title":"Oops","message":"failed"}'' shown \<noteq>
     (None,
      invoke (ShowErrorDialog
                (JObject [(''title'', JString ''Oops''), (''message'', JString ''failed'')])) shown)\<close>
proof -
  have \<open>invoke (SendTelemetryErrorEvent 7 ''view/screencast/error''
                [(''message'', ''{"title":"Oops","message":"failed"}'')]) shown \<noteq>
      invoke (ShowErrorDialog
                (JObject [(''title'', JString ''Oops''), (''message'', JString ''failed'')])) shown\<close>
  proof
    assume \<open>invoke (SendTelemetryErrorEvent 7 ''view/screencast/error''
                [(''message'', ''{"title":"Oops","message":"failed"}'')]) shown =
      invoke (ShowErrorDialog
                (JObject [(''title'', JString ''Oops''), (''message'', JString ''failed'')])) shown\<close>
    then have \<open>calls (invoke (SendTelemetryErrorEvent 7 ''view/screencast/error''
                [(''message'', ''{"title":"Oops","message":"failed"}'')]) shown) =
      calls (invoke (ShowErrorDialog
                (JObject [(''title'', JString ''Oops''), (''message'', JString ''failed'')])) shown)\<close>
      by (rule arg_cong)
    then show False by (simp add: invoke_def)
  qed
  then show ?thesis
    by (simp add: reportError_def sample_host_def sample_JSON_parse_def controller_fields)
qed

text \<open>
  C5. For every string that \<open>JSON.parse\<close> rejects, \<open>reportError\<close> raises the parse
  failure with the state untouched: neither the error dialog nor the telemetry reporter
  is called, and the event leaves the state as it was.
\<close>

theorem reportError_malformed:
  "JSON_parse h msg = None \<Longrightarrow>
     reportError h this msg w = (Some SyntaxError, w)
     \<and> step h (SocketReportedError this msg) w = w"
  by (simp add: reportError_def)

theorem reportError_malformed_witness:
  "JSON_parse sample_host ''not json'' = None
   \<and> reportError sample_host (controller 0) ''not json'' shown = (Some SyntaxError, shown)
   \<and> calls (step sample_host (SocketReportedError (controller 0) ''not json'') shown) = calls shown"
proof -
  have p: "JSON_parse sample_host ''not json'' = None"
    by (simp add: sample_host_def sample_JSON_parse_def)
  from p reportError_malformed [OF p, of "controller 0" shown] show ?thesis by simp
qed

subsection \<open>Events after disposal\<close>

lemma teardown_unfold:
  assumes "ScreencastPanel_instance w = Some this"
    and "trigger \<in> {PanelDisposed this, SocketClosed this, Call_dispose this,
                     Command_createOrShow c u}"
  shows "step h trigger w = dispose this w
      \<or> step h trigger w = invoke (SocketDispose (panelSocket this)) (dispose this w)"
  using assms
  by (auto simp add: onSocketClose_def panel_onDidDispose_def createOrShow_occupied)

lemma shown_then_disposed_state:
  "run sample_host shown_then_disposed hidden = dispose (controller 0) shown"
  by (simp add: shown_then_disposed_def shown_def)

text \<open>
  C6. After the controller in the slot has been disposed by any of the four triggers (the
  user closing the panel, the socket bridge's close event, a direct \<open>dispose()\<close>, a
  superseding \<open>createOrShow\<close>), the slot is empty and the panel and the socket bridge have
  been released. The handlers test nothing of this. A visibility-change event on the
  stale controller that reports the panel not visible makes no call, so nothing is
  rendered; one that reports it visible renders and assigns the HTML, as on a live
  controller. A stale error report whose string \<open>JSON.parse\<close> rejects still raises.
\<close>

theorem stale_view_state_change:
  assumes "ScreencastPanel_instance w = Some this"
    and "trigger \<in> {PanelDisposed this, SocketClosed this, Call_dispose this,
                     Command_createOrShow c u}"
  shows "ScreencastPanel_instance (step h trigger w) = None
     \<and> panel this \<in> set (released_panels (calls (step h trigger w)))
     \<and> SocketDispose (panelSocket this) \<in> set (calls (step h trigger w))
     \<and> calls (step h (ViewStateChanged this False) (step h trigger w)) =
         calls (step h trigger w)
     \<and> html_assignments (calls (step h (ViewStateChanged this True) (step h trigger w))) =
         html_assignments (calls (step h trigger w))
           @ [(panel this, fst (getHtmlForWebview h this w))]
     \<and> (JSON_parse h msg = None \<longrightarrow>
          fst (reportError h this msg (step h trigger w)) = Some SyntaxError)"
proof -
  have parse: "JSON_parse h msg = None \<longrightarrow> fst (reportError h this msg w') = Some SyntaxError"
    for w' :: "('a, 'b) world"
    by (simp add: reportError_def)
  from teardown_unfold [OF assms, of h] show ?thesis
  proof
    assume "step h trigger w = dispose this w"
    then show ?thesis
      by (simp add: dispose_unfold released_panels_append panel_onDidChangeViewState_def
          update_fields getHtmlForWebview_unfold parse)
  next
    assume "step h trigger w = invoke (SocketDispose (panelSocket this)) (dispose this w)"
    then show ?thesis
      by (simp add: dispose_unfold invoke_def released_panels_append
          panel_onDidChangeViewState_def update_fields getHtmlForWebview_unfold parse)
  qed
qed

theorem stale_view_state_change_witness:
  "ScreencastPanel_instance shown = Some (controller 0)
   \<and> ScreencastPanel_instance (step sample_host (PanelDisposed (controller 0)) shown) = None
   \<and> released_panels (calls (step sample_host (PanelDisposed (controller 0)) shown)) = [0]
   \<and> calls (step sample_host (ViewStateChanged (controller 0) False)
              (step sample_host (PanelDisposed (controller 0)) shown)) =
       calls (step sample_host (PanelDisposed (controller 0)) shown)
   \<and> html_assignments
       (calls (step sample_host (ViewStateChanged (controller 0) True)
                (step sample_host (PanelDisposed (controller 0)) shown))) = [(0, sample_html)]
   \<and> JSON_parse sample_host ''not json'' = None
   \<and> fst (reportError sample_host (controller 0) ''not json''
             (step sample_host (PanelDisposed (controller 0)) shown)) = Some SyntaxError"
proof -
  have f: "ScreencastPanel_instance shown = Some (controller 0)" by (simp add: shown_fields)
  have t: "PanelDisposed (controller 0) \<in>
      {PanelDisposed (controller 0), SocketClosed (controller 0), Call_dispose (controller 0),
       Command_createOrShow sample_context sample_url}"
    by simp
  have p: "JSON_parse sample_host ''not json'' = None"
    by (simp add: sample_host_def sample_JSON_parse_def)
  have r: "released_panels (calls (step sample_host (PanelDisposed (controller 0)) shown)) = [0]"
    "html_assignments (calls (step sample_host (PanelDisposed (controller 0)) shown)) = []"
    by (simp_all add: panel_onDidDispose_def invoke_def dispose_unfold shown_fields
        released_panels_append html_assignments_append controller_fields)
  from f p r stale_view_state_change [OF f t, of sample_host "''not json''"] show ?thesis
    by (simp add: controller_fields sample_render)
qed

text \<open>
  The claim as stated fails: the controller is shown and disposed, nothing has been
  rendered, and the next visibility-change event on it, reporting the panel visible,
  assigns the HTML to the released panel; an error report that is not JSON raises.
\<close>

theorem stale_view_state_change_counterexample:
  "ScreencastPanel_instance (run sample_host shown_then_disposed hidden) = None
   \<and> released_panels (calls (run sample_host shown_then_disposed hidden)) = [0]
   \<and> html_assignments (calls (run sample_host shown_then_disposed hidden)) = []
   \<and> html_assignments
       (calls (step sample_host (ViewStateChanged (controller 0) True)
                (run sample_host shown_then_disposed hidden))) = [(0, sample_html)]
   \<and> fst (reportError sample_host (controller 0) ''not json''
             (run sample_host shown_then_disposed hidden)) = Some SyntaxError"
proof -
  have "JSON_parse sample_host ''not json'' = None"
    by (simp add: sample_host_def sample_JSON_parse_def)
  then show ?thesis
    by (simp add: shown_then_disposed_state dispose_unfold shown_fields released_panels_append
        html_assignments_append controller_fields panel_onDidChangeViewState_def update_fields
        sample_render reportError_def)
qed

subsection \<open>Disposing twice\<close>

text \<open>
  C7. \<open>dispose()\<close> has no guard on the singleton reference, so a second call is not a
  no-op: it calls \<open>panel.dispose()\<close> and \<open>panelSocket.dispose()\<close> once more, on the same
  panel and socket bridge. The state after two calls is the state after one call with
  these two calls repeated at the end of the call log, and nothing else differs: the
  slot, already emptied by the first call, is still empty, the controllers, the
  allocations and the visibility are as after one call, and the log holds no call that
  the first had not made.
\<close>

theorem dispose_twice:
  "dispose this (dispose this w) =
     (dispose this w)
       \<lparr>calls := calls (dispose this w)
          @ [PanelDispose (panel this), SocketDispose (panelSocket this)]\<rparr>
   \<and> (dispose this (dispose this w))\<lparr>calls := []\<rparr> = (dispose this w)\<lparr>calls := []\<rparr>
   \<and> ScreencastPanel_instance (dispose this (dispose this w)) = None
   \<and> ScreencastPanel_instance (dispose this w) = None
   \<and> set (calls (dispose this (dispose this w))) = set (calls (dispose this w))
   \<and> calls (dispose this (dispose this w)) =
       calls (dispose this w) @ [PanelDispose (panel this), SocketDispose (panelSocket this)]"
  by (auto simp add: dispose_unfold)

theorem dispose_twice_witness:
  "ScreencastPanel_instance (dispose (controller 0) (dispose (controller 0) shown)) = None
   \<and> released_panels (calls (dispose (controller 0) shown)) = [0]
   \<and> released_panels (calls (dispose (controller 0) (dispose (controller 0) shown))) = [0, 0]"
  using dispose_twice [of "controller 0" shown]
  by (simp add: dispose_unfold shown_fields released_panels_append controller_fields)

text \<open>
  The claim as stated fails: in the state \<open>shown\<close> the controller in the slot is
  disposed twice, and the state after the second call is not the state after the first,
  for the second call has released the panel and the socket bridge again.
\<close>

theorem dispose_twice_counterexample:
  "ScreencastPanel_instance shown = Some (controller 0)
   \<and> dispose (controller 0) (dispose (controller 0) shown) \<noteq> dispose (controller 0) shown
   \<and> calls (dispose (controller 0) (dispose (controller 0) shown)) =
       calls (dispose (controller 0) shown) @ [PanelDispose 0, SocketDispose 1]"
proof -
  have "dispose (controller 0) (dispose (controller 0) shown) \<noteq> dispose (controller 0) shown"
  proof
    assume "dispose (controller 0) (dispose (controller 0) shown) = dispose (controller 0) shown"
    then have "length (calls (dispose (controller 0) (dispose (controller 0) shown))) =
        length (calls (dispose (controller 0) shown))"
      by simp
    then show False by (simp add: dispose_unfold)
  qed
  then show ?thesis by (simp add: shown_fields dispose_unfold controller_fields)
qed

subsection \<open>Posting to the webview\<close>

text \<open>
  C8. \<open>postToWebview(e, message)\<close> posts exactly one envelope to the webview of the
  controller's panel, with the channel \<open>websocket\<close> and the event and the message as
  passed; an absent message is absent from the envelope. Nothing else changes.
\<close>

theorem postToWebview_envelope:
  "postToWebview this e msg w =
     w\<lparr>calls := calls w
          @ [PostMessage (panel this) \<lparr>event = e, message = msg, channel = ''websocket''\<rparr>]\<rparr>
   \<and> calls (postToWebview this e None w) =
       calls w @ [PostMessage (panel this) \<lparr>event = e, message = None, channel = ''websocket''\<rparr>]"
  by (simp add: postToWebview_unfold invoke_def)

theorem postToWebview_envelope_witness:
  "calls (postToWebview (controller 0) ''message'' (Some ''{}'') hidden) =
     [PostMessage 0 \<lparr>event = ''message'', message = Some ''{}'', channel = ''websocket''\<rparr>]
   \<and> calls (postToWebview (controller 0) ''open'' None hidden) =
     [PostMessage 0 \<lparr>event = ''open'', message = None, channel = ''websocket''\<rparr>]"
  using postToWebview_envelope [of "controller 0" "''message''" "Some ''{}''" hidden]
    postToWebview_envelope [of "controller 0" "''open''" None hidden]
  by (simp add: hidden_fields controller_fields)

subsection \<open>Assembling the HTML\<close>

text \<open>
  C9. Every invocation of \<open>getHtmlForWebview\<close> requests exactly three resource URIs from
  the panel's webview, in this order: the bundled script under the extension path, the
  icon-font stylesheet and the view stylesheet under the extension URI. Its last call
  hands the panel's CSP source, unchanged, and the three webview URIs to the view
  renderer, and it returns what the renderer returns. It makes four calls and changes
  nothing else.
\<close>

theorem getHtmlForWebview_resources:
  "fst (getHtmlForWebview h this w) =
     render h (cspSource h (panel this))
       (asWebviewUri h (panel this)
         (Uri_joinPath h (context_extensionUri (context' this)) [''out/screencast'', ''view.css'']))
       (asWebviewUri h (panel this)
         (Uri_joinPath h (context_extensionUri (context' this))
           [''node_modules'', ''@vscode/codicons'', ''dist'', ''codicon.css'']))
       (asWebviewUri h (panel this)
         (Uri_file h (path_join h [extensionPath this, ''out/screencast'', ''screencast.bundle.js''])))
   \<and> uri_requests (calls (snd (getHtmlForWebview h this w))) =
       uri_requests (calls w)
         @ [Uri_file h (path_join h [extensionPath this, ''out/screencast'', ''screencast.bundle.js'']),
            Uri_joinPath h (context_extensionUri (context' this))
              [''node_modules'', ''@vscode/codicons'', ''dist'', ''codicon.css''],
            Uri_joinPath h (context_extensionUri (context' this)) [''out/screencast'', ''view.css'']]
   \<and> last (calls (snd (getHtmlForWebview h this w))) =
       RenderScreencastView (cspSource h (panel this))
         (asWebviewUri h (panel this)
           (Uri_joinPath h (context_extensionUri (context' this)) [''out/screencast'', ''view.css'']))
         (asWebviewUri h (panel this)
           (Uri_joinPath h (context_extensionUri (context' this))
             [''node_modules'', ''@vscode/codicons'', ''dist'', ''codicon.css'']))
         (asWebviewUri h (panel this)
           (Uri_file h (path_join h [extensionPath this, ''out/screencast'', ''screencast.bundle.js''])))
   \<and> length (calls (snd (getHtmlForWebview h this w))) = length (calls w) + 4
   \<and> (snd (getHtmlForWebview h this w))\<lparr>calls := calls w\<rparr> = w"
  by (simp add: getHtmlForWebview_unfold uri_requests_append)

theorem getHtmlForWebview_resources_witness:
  "fst (getHtmlForWebview sample_host (controller 0) hidden) = sample_html
   \<and> uri_requests (calls (snd (getHtmlForWebview sample_host (controller 0) hidden))) =
       [''file:///ext/out/screencast/screencast.bundle.js'',
        ''file:///ext/node_modules/@vscode/codicons/dist/codicon.css'',
        ''file:///ext/out/screencast/view.css'']
   \<and> last (calls (snd (getHtmlForWebview sample_host (controller 0) hidden))) =
       RenderScreencastView ''csp-source'' ''webview:file:///ext/out/screencast/view.css''
         ''webview:file:///ext/node_modules/@vscode/codicons/dist/codicon.css''
         ''webview:file:///ext/out/screencast/screencast.bundle.js''"
  using getHtmlForWebview_resources [of sample_host "controller 0" hidden]
  by (simp add: hidden_fields controller_def sample_host_def sample_context_def sample_html_def)

subsection \<open>At most one live controller\<close>

lemmas sample_run =
  createOrShow_fields createOrShow_released dispose_fields dispose_released
  panel_onDidChangeViewState_fields webview_onDidReceiveMessage_fields onSocketClose_def
  panel_onDidDispose_def invoke_def released_panels_append sample_fresh_controller_record controller_def live_instances_def slot_def
  hidden_def initial_def

text \<open>
  C10. The slot holds no or one controller by its type. That at most one controller is
  live holds at every state reached from the initial state by timely events, those in
  which \<open>dispose()\<close> and the two disposing handlers (panel disposed, socket closed) never
  run on one controller while the slot holds another: there the live controllers are
  exactly the content of the slot. \<open>createOrShow\<close> and the other handlers keep this on
  any controller, live or stale.
\<close>

theorem live_instances_in_slot:
  "timely h evs (initial vis) \<Longrightarrow>
     live_instances (run h evs (initial vis)) = slot (run h evs (initial vis))
     \<and> length (live_instances (run h evs (initial vis))) \<le> 1"
proof -
  assume "timely h evs (initial vis)"
  with consistent_initial have "consistent (run h evs (initial vis))" by (rule consistent_run)
  then have "live_instances (run h evs (initial vis)) = slot (run h evs (initial vis))"
    by (simp add: consistent_def)
  then show ?thesis by (simp add: slot_def split: option.splits)
qed

theorem live_instances_in_slot_witness:
  "timely sample_host timely_events (initial (\<lambda>p. False))
   \<and> live_instances (run sample_host timely_events (initial (\<lambda>p. False))) = [controller 1]"
proof -
  have t: "timely sample_host timely_events (initial (\<lambda>p. False))"
    by (simp add: timely_events_def sample_run)
  have s: "slot (run sample_host timely_events (initial (\<lambda>p. False))) = [controller 1]"
    by (simp add: timely_events_def sample_run)
  from live_instances_in_slot [OF t]
  have l: "live_instances (run sample_host timely_events (initial (\<lambda>p. False))) =
      slot (run sample_host timely_events (initial (\<lambda>p. False)))"
    by (rule conjunct1)
  from l s have "live_instances (run sample_host timely_events (initial (\<lambda>p. False))) =
      [controller 1]"
    by (rule trans)
  with t show ?thesis by (rule conjI)
qed

text \<open>
  The claim as stated fails when a disposing handler runs on a stale controller: the
  first controller is shown and toggled off, the second is shown, the socket bridge of
  the first then reports its closure, which empties the slot, and the next \<open>createOrShow\<close>
  constructs a third controller while the second was never disposed. Two controllers
  are live.
\<close>

theorem late_close_counterexample:
  "deliverable sample_host late_close_events hidden
   \<and> live_instances (run sample_host late_close_events hidden) = [controller 1, controller 2]
   \<and> ScreencastPanel_instance (run sample_host late_close_events hidden) = Some (controller 2)
   \<and> panel (controller 1) \<noteq> panel (controller 2)"
  by (simp add: late_close_events_def sample_run)

end
